theory Spec2Isabelle
  imports Main
begin

section \<open>Format-on-type and the manual format action\<close>

text \<open>
  A shallow embedding of the two classes of the formatting contribution:
  \<^verbatim>\<open>FormatOnType\<close> (methods \<^verbatim>\<open>update\<close> and \<^verbatim>\<open>trigger\<close>) and \<^verbatim>\<open>FormatAction\<close>
  (methods \<^verbatim>\<open>run\<close> and \<^verbatim>\<open>apply\<close>). The editor is a record that is passed
  through every call; an asynchronous request is split into the synchronous part
  that issues it and the continuation that runs when it settles, with an arbitrary
  editor state in between.
\<close>

subsection \<open>Positions, selections, edits\<close>

record position =
  lineNumber :: int
  column :: int

text \<open>
  A selection runs from its anchor (\<^verbatim>\<open>selectionStart...\<close>) to the cursor
  (\<^verbatim>\<open>position...\<close>). It is empty when both ends coincide.
\<close>

record selection =
  selectionStartLineNumber :: int
  selectionStartColumn :: int
  positionLineNumber :: int
  positionColumn :: int

definition isEmpty :: "selection \<Rightarrow> bool" where
  "isEmpty s \<longleftrightarrow>
     selectionStartLineNumber s = positionLineNumber s \<and>
     selectionStartColumn s = positionColumn s"

definition getPositionOf :: "selection \<Rightarrow> position" where
  "getPositionOf s = \<lparr>lineNumber = positionLineNumber s, column = positionColumn s\<rparr>"

subsection \<open>Raw content change notifications\<close>

text \<open>
  \<^verbatim>\<open>IModelContentChangedEvent\<close>: the four change types the listener of
  \<^verbatim>\<open>trigger\<close> tests for, with the line numbers they carry, and one constructor
  for every other value of \<^verbatim>\<open>changeType\<close> (the listener's chain of
  \<^verbatim>\<open>if ... else if\<close> has no final \<^verbatim>\<open>else\<close>).
\<close>

datatype contentChangedEvent =
    ModelRawContentChangedFlush
  | ModelRawContentChangedLineChanged int
  | ModelRawContentChangedLinesInserted int int
  | ModelRawContentChangedLinesDeleted int int
  | OtherChange

subsection \<open>The watch of a pending on-type request\<close>

text \<open>
  The variables the closure of \<^verbatim>\<open>trigger\<close> shares with its listener:
  \<^verbatim>\<open>position\<close>, \<^verbatim>\<open>canceled\<close> and the subscription \<^verbatim>\<open>unbind\<close>, of which
  only whether it has been disposed matters.
\<close>

record watch =
  anchorPosition :: position
  canceled :: bool
  disposed :: bool

definition install :: "position \<Rightarrow> watch" where
  "install p = \<lparr>anchorPosition = p, canceled = False, disposed = False\<rparr>"

definition unbind_dispose :: "watch \<Rightarrow> watch" where
  "unbind_dispose w = w\<lparr>disposed := True\<rparr>"

text \<open>The body of the listener, lines 84 to 105 of the source.\<close>

definition listener :: "contentChangedEvent \<Rightarrow> watch \<Rightarrow> watch" where
  "listener e w =
     (let w1 =
        (case e of
           ModelRawContentChangedFlush \<Rightarrow> w\<lparr>canceled := True\<rparr>
         | ModelRawContentChangedLineChanged changedLine \<Rightarrow>
             w\<lparr>canceled := (changedLine \<le> lineNumber (anchorPosition w))\<rparr>
         | ModelRawContentChangedLinesInserted insertLine toLine \<Rightarrow>
             w\<lparr>canceled := (insertLine \<le> lineNumber (anchorPosition w))\<rparr>
         | ModelRawContentChangedLinesDeleted fromLine deleteLine2 \<Rightarrow>
             w\<lparr>canceled := (deleteLine2 \<le> lineNumber (anchorPosition w))\<rparr>
         | OtherChange \<Rightarrow> w)
      in if canceled w1 then unbind_dispose w1 else w1)"

text \<open>
  Modelled from the spec: the event emitter behind
  \<^verbatim>\<open>editor.onDidChangeModelRawContent\<close> is not part of the sources. A subscription
  that has been disposed receives no further notification; a live one has its
  listener called with each notification, in emission order.
\<close>

definition notify :: "contentChangedEvent \<Rightarrow> watch \<Rightarrow> watch" where
  "notify e w = (if disposed w then w else listener e w)"

definition notifyAll :: "contentChangedEvent list \<Rightarrow> watch \<Rightarrow> watch" where
  "notifyAll es w = fold notify es w"

text \<open>
  The condition under which one notification cancels a watch anchored at line \<open>L\<close>,
  as the listener computes it.
\<close>

fun invalidates :: "int \<Rightarrow> contentChangedEvent \<Rightarrow> bool" where
  "invalidates L ModelRawContentChangedFlush = True"
| "invalidates L (ModelRawContentChangedLineChanged l) = (l \<le> L)"
| "invalidates L (ModelRawContentChangedLinesInserted f t) = (f \<le> L)"
| "invalidates L (ModelRawContentChangedLinesDeleted f t) = (t \<le> L)"
| "invalidates L OtherChange = False"

text \<open>
  A notification all of whose affected lines lie strictly below the anchor line
  \<open>L\<close> (line numbers greater than \<open>L\<close>): a changed line, or a non-empty block of
  inserted or deleted lines \<open>f..t\<close>.
\<close>

fun strictlyBelow :: "int \<Rightarrow> contentChangedEvent \<Rightarrow> bool" where
  "strictlyBelow L ModelRawContentChangedFlush = False"
| "strictlyBelow L (ModelRawContentChangedLineChanged l) = (L < l)"
| "strictlyBelow L (ModelRawContentChangedLinesInserted f t) = (L < f \<and> f \<le> t)"
| "strictlyBelow L (ModelRawContentChangedLinesDeleted f t) = (L < f \<and> f \<le> t)"
| "strictlyBelow L OtherChange = False"

subsection \<open>Models, edits, commands\<close>

text \<open>
  The text model as far as the code reads it: its identity, its content version and
  its resolved options (\<^verbatim>\<open>model.getOptions()\<close>).
\<close>

record model =
  uri :: string
  versionId :: int
  modelTabSize :: int
  modelInsertSpaces :: bool

record formattingOptions =
  tabSize :: int
  insertSpaces :: bool

text \<open>
  The object literal \<^verbatim>\<open>{ tabSize: modelOpts.tabSize, insertSpaces: modelOpts.insertSpaces }\<close>
  that both \<^verbatim>\<open>trigger\<close> and \<^verbatim>\<open>run\<close> build from \<^verbatim>\<open>model.getOptions()\<close>.
\<close>

definition getOptions :: "model \<Rightarrow> formattingOptions" where
  "getOptions m = \<lparr>tabSize = modelTabSize m, insertSpaces = modelInsertSpaces m\<rparr>"

record editRange =
  startLineNumber :: int
  startColumn :: int
  endLineNumber :: int
  endColumn :: int

record singleEditOperation =
  editRange :: editRange
  editText :: string

datatype command = EditOperationsCommand "singleEditOperation list" selection

text \<open>
  The three asynchronous requests of \<^verbatim>\<open>../common/format\<close>, with the arguments
  they are called with.
\<close>

datatype request =
    OnTypeFormattingEdits model position string formattingOptions
  | DocumentFormattingEdits model formattingOptions
  | DocumentRangeFormattingEdits model selection formattingOptions

datatype error = TypeError | ProviderError string

text \<open>How a request settles: with a list of edits, possibly absent, or with a failure.\<close>

datatype settled = Fulfilled "singleEditOperation list option" | Rejected error

subsection \<open>The editor\<close>

text \<open>
  \<^verbatim>\<open>IEditorViewState\<close>, what \<^verbatim>\<open>saveViewState\<close> returns: cursor state and scroll
  position.
\<close>

record editorViewState =
  savedSelection :: selection
  savedSecondarySelections :: "selection list"
  savedScrollTop :: int
  savedScrollLeft :: int

text \<open>
  The state token of \<^verbatim>\<open>captureState(Value, Position)\<close>: the identity and content
  version of the model (absent without a model) and the cursor position.
\<close>

record editorState =
  modelVersionId :: "(string \<times> int) option"
  statePosition :: position

text \<open>
  What the code does to the editor and to the providers, in the order in which it
  happens.
\<close>

datatype effect =
    Requested request
  | CapturedState editorState
  | SavedViewState editorViewState
  | ExecutedCommand string command
  | RestoredViewState editorViewState
  | Focused

text \<open>
  The editor as the two classes see it. The cursor collection always holds the
  primary cursor: \<^verbatim>\<open>getSelection()\<close> returns its selection and
  \<^verbatim>\<open>getSelections()\<close> returns it followed by those of the secondary cursors.
  \<open>callOnModel\<close> is the field of that name of \<^verbatim>\<open>FormatOnType\<close>: one typing
  listener per entry, named by the character it listens for.
\<close>

record editor =
  textModel :: "model option"
  primarySelection :: selection
  secondarySelections :: "selection list"
  scrollTop :: int
  scrollLeft :: int
  formatOnType :: bool
  callOnModel :: "string list"
  trace :: "effect list"

definition getModel :: "editor \<Rightarrow> model option" where
  "getModel ed = textModel ed"

definition getSelection :: "editor \<Rightarrow> selection" where
  "getSelection ed = primarySelection ed"

definition getSelections :: "editor \<Rightarrow> selection list" where
  "getSelections ed = primarySelection ed # secondarySelections ed"

definition getPosition :: "editor \<Rightarrow> position" where
  "getPosition ed = getPositionOf (primarySelection ed)"

definition emit :: "effect \<Rightarrow> editor \<Rightarrow> editor" where
  "emit x ed = ed\<lparr>trace := trace ed @ [x]\<rparr>"

definition focus :: "editor \<Rightarrow> editor" where
  "focus ed = emit Focused ed"

definition currentViewState :: "editor \<Rightarrow> editorViewState" where
  "currentViewState ed =
     \<lparr>savedSelection = primarySelection ed,
      savedSecondarySelections = secondarySelections ed,
      savedScrollTop = scrollTop ed,
      savedScrollLeft = scrollLeft ed\<rparr>"

definition saveViewState :: "editor \<Rightarrow> editorViewState \<times> editor" where
  "saveViewState ed = (currentViewState ed, emit (SavedViewState (currentViewState ed)) ed)"

definition restoreViewState :: "editorViewState \<Rightarrow> editor \<Rightarrow> editor" where
  "restoreViewState s ed =
     emit (RestoredViewState s)
       (ed\<lparr>primarySelection := savedSelection s,
           secondarySelections := savedSecondarySelections s,
           scrollTop := savedScrollTop s,
           scrollLeft := savedScrollLeft s\<rparr>)"

text \<open>
  Modelled from the spec: \<^verbatim>\<open>editor.captureState\<close> and \<^verbatim>\<open>state.validate\<close> are not
  part of the sources. The token is a snapshot of document content-version and cursor
  position; it validates against an editor whose current snapshot is the same.
\<close>

definition snapshot :: "editor \<Rightarrow> editorState" where
  "snapshot ed =
     \<lparr>modelVersionId = map_option (\<lambda>m. (uri m, versionId m)) (getModel ed),
      statePosition = getPosition ed\<rparr>"

definition captureState :: "editor \<Rightarrow> editorState \<times> editor" where
  "captureState ed = (snapshot ed, emit (CapturedState (snapshot ed)) ed)"

definition validate :: "editorState \<Rightarrow> editor \<Rightarrow> bool" where
  "validate st ed \<longleftrightarrow> snapshot ed = st"

subsection \<open>The host: registries, request functions, command execution\<close>

record onTypeFormattingEditProvider =
  autoFormatTriggerCharacters :: "string list option"

text \<open>
  The collaborators that are not part of the sources, as parameters:
  \<^item> \<open>ordered\<close> is \<^verbatim>\<open>OnTypeFormattingEditProviderRegistry.ordered\<close>;
  \<^item> \<open>documentFormatting\<close> and \<open>rangeFormatting\<close> tell whether
    \<^verbatim>\<open>getDocumentFormattingEdits\<close> and \<^verbatim>\<open>getDocumentRangeFormattingEdits\<close> have a
    provider to ask;
  \<^item> \<open>perform\<close> is what executing a command does to the editor (document, cursor,
    scroll position).
\<close>

record host =
  ordered :: "model \<Rightarrow> onTypeFormattingEditProvider list"
  documentFormatting :: "model \<Rightarrow> formattingOptions \<Rightarrow> bool"
  rangeFormatting :: "model \<Rightarrow> selection \<Rightarrow> formattingOptions \<Rightarrow> bool"
  perform :: "command \<Rightarrow> editor \<Rightarrow> editor"

text \<open>
  \<^verbatim>\<open>editor.executeCommand(source, command)\<close>: the command acts on the editor, and
  the call is recorded.
\<close>

definition executeCommand :: "host \<Rightarrow> string \<Rightarrow> command \<Rightarrow> editor \<Rightarrow> editor" where
  "executeCommand h source cmd ed =
     (perform h cmd ed)\<lparr>trace := trace ed @ [ExecutedCommand source cmd]\<rparr>"

text \<open>
  Modelled from the spec: the request functions of \<^verbatim>\<open>../common/format\<close> are not
  part of the sources. Each issues one asynchronous request to the provider and
  returns its promise; the whole-document and the range function return an absent
  promise, and ask nobody, when no provider applies. The on-type function always
  returns a promise (\<^verbatim>\<open>trigger\<close> calls \<^verbatim>\<open>then\<close> on it unguarded).
\<close>

definition getOnTypeFormattingEdits ::
  "model \<Rightarrow> position \<Rightarrow> string \<Rightarrow> formattingOptions \<Rightarrow> editor \<Rightarrow> request \<times> editor" where
  "getOnTypeFormattingEdits m p ch opts ed =
     (OnTypeFormattingEdits m p ch opts, emit (Requested (OnTypeFormattingEdits m p ch opts)) ed)"

definition getDocumentFormattingEdits ::
  "host \<Rightarrow> model \<Rightarrow> formattingOptions \<Rightarrow> editor \<Rightarrow> request option \<times> editor" where
  "getDocumentFormattingEdits h m opts ed =
     (if documentFormatting h m opts
      then (Some (DocumentFormattingEdits m opts),
            emit (Requested (DocumentFormattingEdits m opts)) ed)
      else (None, ed))"

definition getDocumentRangeFormattingEdits ::
  "host \<Rightarrow> model \<Rightarrow> selection \<Rightarrow> formattingOptions \<Rightarrow> editor \<Rightarrow> request option \<times> editor" where
  "getDocumentRangeFormattingEdits h m r opts ed =
     (if rangeFormatting h m r opts
      then (Some (DocumentRangeFormattingEdits m r opts),
            emit (Requested (DocumentRangeFormattingEdits m r opts)) ed)
      else (None, ed))"

text \<open>\<^verbatim>\<open>arrays.isFalsyOrEmpty\<close>: no array, or an array of length 0.\<close>

definition isFalsyOrEmpty :: "'a list option \<Rightarrow> bool" where
  "isFalsyOrEmpty obj = (case obj of None \<Rightarrow> True | Some xs \<Rightarrow> length xs = 0)"

subsection \<open>FormatOnType\<close>

definition FormatOnType_ID :: string where
  "FormatOnType_ID = ''editor.contrib.autoFormat''"

definition addTypingListener :: "string \<Rightarrow> editor \<Rightarrow> editor" where
  "addTypingListener ch ed = ed\<lparr>callOnModel := callOnModel ed @ [ch]\<rparr>"

text \<open>
  \<^verbatim>\<open>update\<close>, lines 42 to 69. The destructuring \<^verbatim>\<open>var [support] = ...\<close> takes the
  first element of the ordered list, \<^verbatim>\<open>undefined\<close> for the empty list. An empty
  array of trigger characters is not falsy: it passes the test and the loop over
  it registers nothing.
\<close>

definition update :: "host \<Rightarrow> editor \<Rightarrow> editor" where
  "update h ed =
     (let ed1 = ed\<lparr>callOnModel := []\<rparr> in
      if \<not> formatOnType ed1 then ed1
      else
        (case getModel ed1 of
           None \<Rightarrow> ed1
         | Some m \<Rightarrow>
             (case ordered h m of
                [] \<Rightarrow> ed1
              | support # rest \<Rightarrow>
                  (case autoFormatTriggerCharacters support of
                     None \<Rightarrow> ed1
                   | Some chs \<Rightarrow> fold addTypingListener chs ed1))))"

text \<open>
  \<^verbatim>\<open>trigger\<close>, the synchronous part, lines 71 to 112. The result is the exception
  thrown, if any, the editor, and the watch of the request that was started, if
  one was. Without a model \<^verbatim>\<open>model.getOptions()\<close> throws, after the listener has
  been installed.
\<close>

definition trigger :: "string \<Rightarrow> editor \<Rightarrow> error option \<times> editor \<times> watch option" where
  "trigger ch ed =
     (if length (getSelections ed) > 1 then (None, ed, None)
      else
        (let model = getModel ed;
             position = getPosition ed;
             unbind = install position
         in case model of
              None \<Rightarrow> (Some TypeError, ed, Some unbind)
            | Some m \<Rightarrow>
                (let modelOpts = getOptions m;
                     (promise, ed1) = getOnTypeFormattingEdits m position ch modelOpts ed
                 in (None, ed1, Some unbind))))"

text \<open>
  The two handlers passed to \<^verbatim>\<open>then\<close>, lines 112 to 125, run on the editor and
  the watch as they are when the request settles. In the branch that executes the
  command the edits are present, by the test before it.
\<close>

definition onEdits ::
  "host \<Rightarrow> singleEditOperation list option \<Rightarrow> editor \<Rightarrow> watch \<Rightarrow>
   error option \<times> editor \<times> watch" where
  "onEdits h edits ed w =
     (let w1 = unbind_dispose w in
      if canceled w1 \<or> isFalsyOrEmpty edits then (None, ed, w1)
      else
        (case edits of
           None \<Rightarrow> (None, ed, w1)
         | Some es \<Rightarrow>
             (None,
              executeCommand h FormatOnType_ID (EditOperationsCommand es (getSelection ed)) ed,
              w1)))"

definition onError :: "error \<Rightarrow> editor \<Rightarrow> watch \<Rightarrow> error option \<times> editor \<times> watch" where
  "onError err ed w = (let w1 = unbind_dispose w in (Some err, ed, w1))"

definition settle ::
  "host \<Rightarrow> settled \<Rightarrow> editor \<Rightarrow> watch \<Rightarrow> error option \<times> editor \<times> watch" where
  "settle h outcome ed w =
     (case outcome of
        Fulfilled edits \<Rightarrow> onEdits h edits ed w
      | Rejected err \<Rightarrow> onError err ed w)"

subsection \<open>FormatAction\<close>

definition FormatAction_id :: string where
  "FormatAction_id = ''editor.action.format''"

text \<open>
  What the continuation of \<^verbatim>\<open>run\<close> closes over: \<^verbatim>\<open>formattingPromise\<close>,
  \<^verbatim>\<open>editorSelection\<close> (the selection read at the start of \<^verbatim>\<open>run\<close>) and the
  token \<^verbatim>\<open>state\<close>.
\<close>

record pendingFormat =
  pendingPromise :: request
  pendingSelection :: selection
  pendingState :: editorState

text \<open>
  \<^verbatim>\<open>run\<close>, the synchronous part, lines 171 to 197. Without a model
  \<^verbatim>\<open>model.getOptions()\<close> throws. Without a promise the action completes at once.
\<close>

definition run :: "host \<Rightarrow> editor \<Rightarrow> error option \<times> editor \<times> pendingFormat option" where
  "run h editor =
     (case getModel editor of
        None \<Rightarrow> (Some TypeError, editor, None)
      | Some m \<Rightarrow>
          (let editorSelection = getSelection editor;
               options = getOptions m;
               (formattingPromise, editor1) =
                 (if isEmpty editorSelection
                  then getDocumentFormattingEdits h m options editor
                  else getDocumentRangeFormattingEdits h m editorSelection options editor)
           in case formattingPromise of
                None \<Rightarrow> (None, editor1, None)
              | Some p \<Rightarrow>
                  (let (state, editor2) = captureState editor1
                   in (None, editor2,
                       Some \<lparr>pendingPromise = p, pendingSelection = editorSelection,
                             pendingState = state\<rparr>))))"

text \<open>\<^verbatim>\<open>apply\<close>, lines 213 to 225.\<close>

definition apply_edits ::
  "host \<Rightarrow> selection \<Rightarrow> singleEditOperation list \<Rightarrow> editor \<Rightarrow> editor" where
  "apply_edits h editorSelection value editor =
     (let (state, editor1) =
            (if isEmpty editorSelection
             then (let (s, e) = saveViewState editor in (Some s, e))
             else (None, editor));
          command = EditOperationsCommand value editorSelection;
          editor2 = executeCommand h FormatAction_id command editor1
      in case state of
           Some s \<Rightarrow> restoreViewState s editor2
         | None \<Rightarrow> editor2)"

text \<open>
  The continuation of \<^verbatim>\<open>run\<close>, lines 197 to 210, on the editor as it is when the
  result arrives. There is no failure handler: a failure of the request is the
  failure of the action.
\<close>

definition onResult ::
  "host \<Rightarrow> pendingFormat \<Rightarrow> singleEditOperation list option \<Rightarrow> editor \<Rightarrow> editor" where
  "onResult h p result editor =
     (if \<not> validate (pendingState p) editor then editor
      else
        (case result of
           None \<Rightarrow> editor
         | Some r \<Rightarrow>
             if length r = 0 then editor
             else focus (apply_edits h (pendingSelection p) r editor)))"

definition settleRun ::
  "host \<Rightarrow> pendingFormat \<Rightarrow> settled \<Rightarrow> editor \<Rightarrow> error option \<times> editor" where
  "settleRun h p outcome editor =
     (case outcome of
        Fulfilled result \<Rightarrow> (None, onResult h p result editor)
      | Rejected err \<Rightarrow> (Some err, editor))"

subsection \<open>Order of effects\<close>

text \<open>
  \<open>comesBefore P Q xs\<close>: the list holds an effect satisfying \<open>Q\<close>, and an effect
  satisfying \<open>P\<close> strictly before the first of them.
\<close>

definition comesBefore :: "('a \<Rightarrow> bool) \<Rightarrow> ('a \<Rightarrow> bool) \<Rightarrow> 'a list \<Rightarrow> bool" where
  "comesBefore P Q xs \<longleftrightarrow>
     list_ex Q xs \<and> list_ex P (takeWhile (\<lambda>x. \<not> Q x) xs)"

fun isRequested :: "effect \<Rightarrow> bool" where
  "isRequested (Requested r) = True"
| "isRequested x = False"

fun isCapturedState :: "effect \<Rightarrow> bool" where
  "isCapturedState (CapturedState s) = True"
| "isCapturedState x = False"

fun isExecutedCommand :: "effect \<Rightarrow> bool" where
  "isExecutedCommand (ExecutedCommand s c) = True"
| "isExecutedCommand x = False"

text \<open>The effects added to the trace between an earlier and a later editor state.\<close>

definition added :: "editor \<Rightarrow> editor \<Rightarrow> effect list" where
  "added ed ed' = drop (length (trace ed)) (trace ed')"

subsection \<open>Sample states\<close>

text \<open>Concrete models, editors and hosts on which the theorems below are instantiated.\<close>

definition sampleModel :: model where
  "sampleModel =
     \<lparr>uri = ''file:///a.ts'', versionId = 3, modelTabSize = 4, modelInsertSpaces = True\<rparr>"

definition caretAt :: "int \<Rightarrow> int \<Rightarrow> selection" where
  "caretAt l c =
     \<lparr>selectionStartLineNumber = l, selectionStartColumn = c,
      positionLineNumber = l, positionColumn = c\<rparr>"

definition rangeSel :: "int \<Rightarrow> int \<Rightarrow> int \<Rightarrow> int \<Rightarrow> selection" where
  "rangeSel l1 c1 l2 c2 =
     \<lparr>selectionStartLineNumber = l1, selectionStartColumn = c1,
      positionLineNumber = l2, positionColumn = c2\<rparr>"

definition sampleEditor :: "selection \<Rightarrow> editor" where
  "sampleEditor s =
     \<lparr>textModel = Some sampleModel, primarySelection = s, secondarySelections = [],
      scrollTop = 120, scrollLeft = 0, formatOnType = True, callOnModel = [], trace = []\<rparr>"

text \<open>
  A host whose first on-type provider declares no trigger characters while its
  second does, with providers for both manual requests, and where a command bumps
  the content version, moves the cursor to the top and scrolls there.
\<close>

definition sampleHost :: host where
  "sampleHost =
     \<lparr>ordered = (\<lambda>m. [\<lparr>autoFormatTriggerCharacters = None\<rparr>,
                       \<lparr>autoFormatTriggerCharacters = Some ['';'', ''}'']\<rparr>]),
      documentFormatting = (\<lambda>m opts. True),
      rangeFormatting = (\<lambda>m r opts. True),
      perform = (\<lambda>cmd ed.
         ed\<lparr>textModel := map_option (\<lambda>m. m\<lparr>versionId := versionId m + 1\<rparr>) (textModel ed),
            primarySelection := caretAt 1 1,
            scrollTop := 0\<rparr>)\<rparr>"

definition sampleEdit :: singleEditOperation where
  "sampleEdit =
     \<lparr>editRange = \<lparr>startLineNumber = 2, startColumn = 1, endLineNumber = 2, endColumn = 1\<rparr>,
      editText = ''  ''\<rparr>"

section \<open>Properties of the watch\<close>

lemma notifyAll_Nil: "notifyAll [] w = w"
  by (simp add: notifyAll_def)

lemma notifyAll_Cons: "notifyAll (e # es) w = notifyAll es (notify e w)"
  by (simp add: notifyAll_def)

lemma notifyAll_append: "notifyAll (es @ es') w = notifyAll es' (notifyAll es w)"
  by (simp add: notifyAll_def)

lemma notifyAll_disposed: "disposed w \<Longrightarrow> notifyAll es w = w"
  by (induction es) (simp_all add: notifyAll_Nil notifyAll_Cons notify_def)

lemma listener_anchor: "anchorPosition (listener e w) = anchorPosition w"
  by (cases e) (simp_all add: listener_def unbind_dispose_def Let_def)

lemma listener_canceled:
  "\<not> canceled w \<Longrightarrow>
   canceled (listener e w) \<longleftrightarrow> invalidates (lineNumber (anchorPosition w)) e"
  by (cases e) (simp_all add: listener_def unbind_dispose_def Let_def)

lemma listener_disposed:
  "\<not> disposed w \<Longrightarrow> disposed (listener e w) \<longleftrightarrow> canceled (listener e w)"
  by (cases e) (simp_all add: listener_def unbind_dispose_def Let_def)

text \<open>
  The invariant of a live watch: while the subscription is live the flag is false,
  so the flag after a sequence of notifications is true exactly if one of them
  cancels.
\<close>

lemma notifyAll_live:
  "\<not> disposed w \<Longrightarrow> \<not> canceled w \<Longrightarrow>
   canceled (notifyAll es w) \<longleftrightarrow>
     (\<exists>e \<in> set es. invalidates (lineNumber (anchorPosition w)) e)"
proof (induction es arbitrary: w)
  case Nil
  then show ?case by (simp add: notifyAll_Nil)
next
  case (Cons e es)
  let ?w = "listener e w"
  have step: "notify e w = ?w" using Cons.prems by (simp add: notify_def)
  show ?case
  proof (cases "canceled ?w")
    case True
    then have "disposed ?w" using Cons.prems listener_disposed by blast
    then have "notifyAll es ?w = ?w" by (rule notifyAll_disposed)
    moreover have "invalidates (lineNumber (anchorPosition w)) e"
      using True Cons.prems listener_canceled by blast
    ultimately show ?thesis using True by (simp add: notifyAll_Cons step)
  next
    case False
    then have live: "\<not> disposed ?w" using Cons.prems listener_disposed by blast
    have no: "\<not> invalidates (lineNumber (anchorPosition w)) e"
      using False Cons.prems listener_canceled by blast
    have "canceled (notifyAll es ?w) \<longleftrightarrow>
            (\<exists>e \<in> set es. invalidates (lineNumber (anchorPosition ?w)) e)"
      using Cons.IH [OF live False] .
    then show ?thesis using no by (simp add: notifyAll_Cons step listener_anchor)
  qed
qed

lemma strictlyBelow_not_invalidates: "strictlyBelow L e \<Longrightarrow> \<not> invalidates L e"
  by (cases e) simp_all

lemma invalidates_cases:
  "invalidates L e \<longleftrightarrow>
     e = ModelRawContentChangedFlush \<or>
     (\<exists>l. e = ModelRawContentChangedLineChanged l \<and> l \<le> L) \<or>
     (\<exists>f t. e = ModelRawContentChangedLinesInserted f t \<and> f \<le> L) \<or>
     (\<exists>f t. e = ModelRawContentChangedLinesDeleted f t \<and> t \<le> L)"
  by (cases e) simp_all

text \<open>
  C1. A watch installed at a position on line \<open>L\<close> reports invalidated, after any
  sequence of change notifications, exactly if the sequence holds a full-content
  replace, a single-line change of a line \<open>\<le> L\<close>, an insertion of lines starting at
  a line \<open>\<le> L\<close>, or a deletion of lines ending at a line \<open>\<le> L\<close>. A sequence of
  notifications that only affect lines strictly greater than \<open>L\<close> leaves the watch
  valid.
\<close>

theorem watch_invalidated_iff:
  "(canceled (notifyAll es (install \<lparr>lineNumber = L, column = c\<rparr>)) \<longleftrightarrow>
      (\<exists>e \<in> set es.
         e = ModelRawContentChangedFlush \<or>
         (\<exists>l. e = ModelRawContentChangedLineChanged l \<and> l \<le> L) \<or>
         (\<exists>f t. e = ModelRawContentChangedLinesInserted f t \<and> f \<le> L) \<or>
         (\<exists>f t. e = ModelRawContentChangedLinesDeleted f t \<and> t \<le> L)))
   \<and> ((\<forall>e \<in> set es. strictlyBelow L e) \<longrightarrow>
        \<not> canceled (notifyAll es (install \<lparr>lineNumber = L, column = c\<rparr>)))"
proof -
  let ?w = "install \<lparr>lineNumber = L, column = c\<rparr>"
  have iff: "canceled (notifyAll es ?w) \<longleftrightarrow> (\<exists>e \<in> set es. invalidates L e)"
    using notifyAll_live [of ?w es] by (simp add: install_def)
  have "(\<forall>e \<in> set es. strictlyBelow L e) \<longrightarrow> \<not> canceled (notifyAll es ?w)"
    using iff strictlyBelow_not_invalidates by blast
  then show ?thesis using iff by (simp add: invalidates_cases)
qed

theorem watch_invalidated_iff_witness:
  "\<not> canceled (notifyAll [ModelRawContentChangedLineChanged 6,
        ModelRawContentChangedLinesDeleted 7 9]
      (install \<lparr>lineNumber = 5, column = 1\<rparr>))
   \<and> canceled (notifyAll [ModelRawContentChangedLineChanged 6,
        ModelRawContentChangedLinesInserted 3 4, ModelRawContentChangedLineChanged 8]
      (install \<lparr>lineNumber = 5, column = 1\<rparr>))"
proof -
  have a: "\<not> canceled (notifyAll [ModelRawContentChangedLineChanged 6,
        ModelRawContentChangedLinesDeleted 7 9]
      (install \<lparr>lineNumber = 5, column = 1\<rparr>))"
    using watch_invalidated_iff
      [of "[ModelRawContentChangedLineChanged 6, ModelRawContentChangedLinesDeleted 7 9]" 5 1]
    by simp
  have b: "canceled (notifyAll [ModelRawContentChangedLineChanged 6,
        ModelRawContentChangedLinesInserted 3 4, ModelRawContentChangedLineChanged 8]
      (install \<lparr>lineNumber = 5, column = 1\<rparr>))"
    using watch_invalidated_iff
      [of "[ModelRawContentChangedLineChanged 6, ModelRawContentChangedLinesInserted 3 4,
            ModelRawContentChangedLineChanged 8]" 5 1]
    by simp
  show ?thesis using a b by simp
qed

text \<open>A canceled watch is a disposed one, whatever notifications arrive.\<close>

lemma notifyAll_inv:
  "(canceled w \<longrightarrow> disposed w) \<Longrightarrow>
   canceled (notifyAll es w) \<longrightarrow> disposed (notifyAll es w)"
proof (induction es arbitrary: w)
  case Nil
  then show ?case by (simp add: notifyAll_Nil)
next
  case (Cons e es)
  have "canceled (notify e w) \<longrightarrow> disposed (notify e w)"
    using Cons.prems listener_disposed [of w e] by (simp add: notify_def)
  then show ?case using Cons.IH by (simp add: notifyAll_Cons)
qed

text \<open>
  C3. For every sequence of notifications \<open>es\<close> after which the flag is true, the
  subscription is disposed, and after any further notifications \<open>es'\<close> the watch is
  as it was and the flag is still true.
\<close>

theorem canceled_latch:
  "canceled (notifyAll es (install p)) \<Longrightarrow>
     disposed (notifyAll es (install p)) \<and>
     notifyAll (es @ es') (install p) = notifyAll es (install p) \<and>
     canceled (notifyAll (es @ es') (install p))"
proof -
  assume c: "canceled (notifyAll es (install p))"
  have "canceled (install p) \<longrightarrow> disposed (install p)" by (simp add: install_def)
  then have d: "disposed (notifyAll es (install p))" using c notifyAll_inv by blast
  then have "notifyAll (es @ es') (install p) = notifyAll es (install p)"
    by (simp add: notifyAll_append notifyAll_disposed)
  then show ?thesis using c d by simp
qed

theorem canceled_latch_witness:
  "canceled (notifyAll [ModelRawContentChangedLinesInserted 3 4]
       (install \<lparr>lineNumber = 5, column = 2\<rparr>))
   \<and> canceled (notifyAll ([ModelRawContentChangedLinesInserted 3 4] @
         [ModelRawContentChangedLineChanged 8, ModelRawContentChangedLinesDeleted 9 9])
       (install \<lparr>lineNumber = 5, column = 2\<rparr>))"
proof -
  have c: "canceled (notifyAll [ModelRawContentChangedLinesInserted 3 4]
       (install \<lparr>lineNumber = 5, column = 2\<rparr>))"
    by (simp add: notifyAll_def notify_def listener_def install_def unbind_dispose_def)
  show ?thesis using c canceled_latch [OF c] by simp
qed

section \<open>Properties of the on-type controller\<close>

lemma added_self: "added ed ed = []"
  by (simp add: added_def)

lemma added_emit2: "added ed (emit y (emit x ed)) = [x, y]"
  by (simp add: added_def emit_def)

lemma trace_executeCommand:
  "trace (executeCommand h src cmd ed) = trace ed @ [ExecutedCommand src cmd]"
  by (simp add: executeCommand_def)

lemma added_executeCommand: "added ed (executeCommand h src cmd ed) = [ExecutedCommand src cmd]"
  by (simp add: added_def executeCommand_def)

lemma trigger_multi:
  "length (getSelections ed) > 1 \<Longrightarrow> trigger ch ed = (None, ed, None)"
  by (simp add: trigger_def)

text \<open>With one selection and a model, the watch is installed and the request issued.\<close>

lemma trigger_single:
  "length (getSelections ed) = 1 \<Longrightarrow> getModel ed = Some m \<Longrightarrow>
   trigger ch ed =
     (None,
      emit (Requested (OnTypeFormattingEdits m (getPosition ed) ch (getOptions m))) ed,
      Some (install (getPosition ed)))"
  by (simp add: trigger_def getOnTypeFormattingEdits_def Let_def)

text \<open>
  C4. Whenever the number of selections is not exactly one, \<^verbatim>\<open>trigger\<close> returns
  with the editor unchanged, no watch and no exception; so a watch is installed or
  a request issued only with exactly one selection.
\<close>

theorem trigger_only_single_selection:
  "(length (getSelections ed) \<noteq> 1 \<longrightarrow> trigger ch ed = (None, ed, None)) \<and>
   (snd (snd (trigger ch ed)) \<noteq> None \<or>
    list_ex isRequested (added ed (fst (snd (trigger ch ed))))
      \<longrightarrow> length (getSelections ed) = 1)"
proof -
  have pos: "length (getSelections ed) \<ge> 1" by (simp add: getSelections_def)
  have a: "length (getSelections ed) \<noteq> 1 \<longrightarrow> trigger ch ed = (None, ed, None)"
    using pos trigger_multi [of ed ch] by auto
  then have "length (getSelections ed) \<noteq> 1 \<longrightarrow>
      snd (snd (trigger ch ed)) = None \<and>
      \<not> list_ex isRequested (added ed (fst (snd (trigger ch ed))))"
    by (simp add: added_self)
  then show ?thesis using a by (cases "length (getSelections ed) = 1") simp_all
qed

theorem trigger_only_single_selection_witness:
  "trigger ''}'' ((sampleEditor (caretAt 2 7))\<lparr>secondarySelections := [caretAt 5 1]\<rparr>)
     = (None, (sampleEditor (caretAt 2 7))\<lparr>secondarySelections := [caretAt 5 1]\<rparr>, None)"
proof -
  let ?two = "(sampleEditor (caretAt 2 7))\<lparr>secondarySelections := [caretAt 5 1]\<rparr>"
  have two: "length (getSelections ?two) \<noteq> 1"
    by (simp add: getSelections_def)
  have "length (getSelections ?two) \<noteq> 1 \<longrightarrow> trigger ''}'' ?two = (None, ?two, None)"
    using trigger_only_single_selection [of ?two "''}''"] by (rule conjunct1)
  then show ?thesis using two by (rule mp)
qed

lemma onEdits_discard:
  "canceled w \<or> isFalsyOrEmpty edits \<Longrightarrow>
   onEdits h edits ed w = (None, ed, unbind_dispose w)"
  by (auto simp add: onEdits_def unbind_dispose_def Let_def)

lemma onEdits_execute:
  "\<not> canceled w \<Longrightarrow> es \<noteq> [] \<Longrightarrow>
   onEdits h (Some es) ed w =
     (None,
      executeCommand h FormatOnType_ID (EditOperationsCommand es (getSelection ed)) ed,
      unbind_dispose w)"
  by (simp add: onEdits_def unbind_dispose_def isFalsyOrEmpty_def Let_def)

text \<open>
  C5. When the request is fulfilled with \<open>edits\<close>, on the editor \<open>ed\<close> and the watch
  \<open>w\<close> of that moment: if the watch is canceled or the edits are absent or empty,
  the editor is unchanged; otherwise exactly one effect is added, the execution of
  one command built from the edits and the selection of \<open>ed\<close>.
\<close>

theorem onEdits_applies_once:
  "(canceled w \<or> isFalsyOrEmpty edits \<longrightarrow>
      settle h (Fulfilled edits) ed w = (None, ed, unbind_dispose w)) \<and>
   (\<not> canceled w \<and> edits = Some es \<and> es \<noteq> [] \<longrightarrow>
      added ed (fst (snd (settle h (Fulfilled edits) ed w))) =
        [ExecutedCommand FormatOnType_ID (EditOperationsCommand es (getSelection ed))])"
  by (simp add: settle_def onEdits_discard onEdits_execute added_executeCommand)

theorem onEdits_applies_once_witness:
  "added (sampleEditor (caretAt 2 9))
     (fst (snd (settle sampleHost (Fulfilled (Some [sampleEdit])) (sampleEditor (caretAt 2 9))
        (notifyAll [ModelRawContentChangedLineChanged 6]
           (install (getPosition (sampleEditor (caretAt 2 7)))))))) =
     [ExecutedCommand FormatOnType_ID (EditOperationsCommand [sampleEdit] (caretAt 2 9))]
   \<and> fst (snd (settle sampleHost (Fulfilled (Some [sampleEdit])) (sampleEditor (caretAt 2 9))
        (notifyAll [ModelRawContentChangedLinesInserted 1 1]
           (install (getPosition (sampleEditor (caretAt 2 7))))))) =
     sampleEditor (caretAt 2 9)"
proof -
  let ?later = "sampleEditor (caretAt 2 9)"
  let ?valid = "notifyAll [ModelRawContentChangedLineChanged 6]
           (install (getPosition (sampleEditor (caretAt 2 7))))"
  let ?stale = "notifyAll [ModelRawContentChangedLinesInserted 1 1]
           (install (getPosition (sampleEditor (caretAt 2 7))))"
  have v: "\<not> canceled ?valid"
    by (simp add: notifyAll_def notify_def listener_def install_def unbind_dispose_def
          getPosition_def getPositionOf_def sampleEditor_def caretAt_def)
  have c: "canceled ?stale"
    by (simp add: notifyAll_def notify_def listener_def install_def unbind_dispose_def
          getPosition_def getPositionOf_def sampleEditor_def caretAt_def)
  have sel: "getSelection ?later = caretAt 2 9"
    by (simp add: getSelection_def sampleEditor_def)
  have "\<not> canceled ?valid \<and> Some [sampleEdit] = Some [sampleEdit] \<and> [sampleEdit] \<noteq> [] \<longrightarrow>
      added ?later (fst (snd (settle sampleHost (Fulfilled (Some [sampleEdit])) ?later ?valid))) =
        [ExecutedCommand FormatOnType_ID (EditOperationsCommand [sampleEdit] (getSelection ?later))]"
    using onEdits_applies_once
      [where w = ?valid and edits = "Some [sampleEdit]" and es = "[sampleEdit]"
         and h = sampleHost and ed = ?later]
    by (rule conjunct2)
  then have a: "added ?later
      (fst (snd (settle sampleHost (Fulfilled (Some [sampleEdit])) ?later ?valid))) =
        [ExecutedCommand FormatOnType_ID (EditOperationsCommand [sampleEdit] (caretAt 2 9))]"
    using v by (simp only: sel) simp
  have "canceled ?stale \<or> isFalsyOrEmpty (Some [sampleEdit]) \<longrightarrow>
      settle sampleHost (Fulfilled (Some [sampleEdit])) ?later ?stale =
        (None, ?later, unbind_dispose ?stale)"
    using onEdits_applies_once
      [where w = ?stale and edits = "Some [sampleEdit]" and es = "[sampleEdit]"
         and h = sampleHost and ed = ?later]
    by (rule conjunct1)
  then have "settle sampleHost (Fulfilled (Some [sampleEdit])) ?later ?stale =
        (None, ?later, unbind_dispose ?stale)"
    using c by blast
  then have b: "fst (snd (settle sampleHost (Fulfilled (Some [sampleEdit])) ?later ?stale)) =
      ?later"
    by (simp only: fst_conv snd_conv)
  show ?thesis using a b by (rule conjI)
qed

text \<open>
  C6. However the request settles, the subscription of the watch is disposed
  afterwards. When it fails with \<open>err\<close>, the handler ends by throwing \<open>err\<close>, with
  the watch disposed and the editor untouched; when it is fulfilled, no exception
  is thrown.
\<close>

theorem settle_disposes_and_rethrows:
  "disposed (snd (snd (settle h outcome ed w))) \<and>
   settle h (Rejected err) ed w = (Some err, ed, unbind_dispose w) \<and>
   fst (settle h (Fulfilled edits) ed w) = None"
proof -
  have a: "disposed (snd (snd (settle h outcome ed w)))"
    by (cases outcome)
       (simp_all add: settle_def onEdits_def onError_def unbind_dispose_def Let_def
          split: option.splits)
  have b: "settle h (Rejected err) ed w = (Some err, ed, unbind_dispose w)"
    by (simp add: settle_def onError_def)
  have c: "fst (settle h (Fulfilled edits) ed w) = None"
    by (simp add: settle_def onEdits_def Let_def split: option.splits)
  show ?thesis using a b c by simp
qed

theorem settle_disposes_and_rethrows_witness:
  "settle sampleHost (Rejected (ProviderError ''boom'')) (sampleEditor (caretAt 2 7))
     (install \<lparr>lineNumber = 2, column = 7\<rparr>) =
     (Some (ProviderError ''boom''), sampleEditor (caretAt 2 7),
      \<lparr>anchorPosition = \<lparr>lineNumber = 2, column = 7\<rparr>, canceled = False, disposed = True\<rparr>)"
proof -
  have "settle sampleHost (Rejected (ProviderError ''boom'')) (sampleEditor (caretAt 2 7))
     (install \<lparr>lineNumber = 2, column = 7\<rparr>) =
     (Some (ProviderError ''boom''), sampleEditor (caretAt 2 7),
      unbind_dispose (install \<lparr>lineNumber = 2, column = 7\<rparr>))"
    using settle_disposes_and_rethrows
      [where h = sampleHost and err = "ProviderError ''boom''"
         and ed = "sampleEditor (caretAt 2 7)" and w = "install \<lparr>lineNumber = 2, column = 7\<rparr>"
         and outcome = "Rejected (ProviderError ''boom'')" and edits = None]
    by blast
  moreover have "unbind_dispose (install \<lparr>lineNumber = 2, column = 7\<rparr>) =
      \<lparr>anchorPosition = \<lparr>lineNumber = 2, column = 7\<rparr>, canceled = False, disposed = True\<rparr>"
    by (simp add: unbind_dispose_def install_def)
  ultimately show ?thesis by (simp only:)
qed

section \<open>Properties of the manual format action\<close>

text \<open>
  C7. When the result arrives and the token no longer validates against the
  editor, or the result is absent or empty, the continuation returns without an
  exception and with the editor exactly as it was.
\<close>

theorem run_abandons:
  "\<not> validate (pendingState p) ed \<or> isFalsyOrEmpty result \<Longrightarrow>
   settleRun h p (Fulfilled result) ed = (None, ed)"
  by (auto simp add: settleRun_def onResult_def isFalsyOrEmpty_def split: option.splits)

theorem run_abandons_witness:
  "settleRun sampleHost
     \<lparr>pendingPromise = DocumentFormattingEdits sampleModel (getOptions sampleModel),
      pendingSelection = caretAt 2 7,
      pendingState = snapshot (sampleEditor (caretAt 2 7))\<rparr>
     (Fulfilled (Some [sampleEdit])) (sampleEditor (caretAt 3 1)) =
   (None, sampleEditor (caretAt 3 1))"
proof -
  let ?p = "\<lparr>pendingPromise = DocumentFormattingEdits sampleModel (getOptions sampleModel),
      pendingSelection = caretAt 2 7,
      pendingState = snapshot (sampleEditor (caretAt 2 7))\<rparr>"
  have "\<not> validate (pendingState ?p) (sampleEditor (caretAt 3 1))"
    by (simp add: validate_def snapshot_def getPosition_def getPositionOf_def getModel_def
          sampleEditor_def caretAt_def)
  then have "\<not> validate (pendingState ?p) (sampleEditor (caretAt 3 1)) \<or>
      isFalsyOrEmpty (Some [sampleEdit])" by (rule disjI1)
  then show ?thesis by (rule run_abandons)
qed

lemma apply_edits_nonempty:
  "\<not> isEmpty sel \<Longrightarrow>
   apply_edits h sel v ed = executeCommand h FormatAction_id (EditOperationsCommand v sel) ed"
  by (simp add: apply_edits_def)

lemma apply_edits_empty:
  "isEmpty sel \<Longrightarrow>
   apply_edits h sel v ed =
     restoreViewState (currentViewState ed)
       (executeCommand h FormatAction_id (EditOperationsCommand v sel)
          (emit (SavedViewState (currentViewState ed)) ed))"
  by (simp add: apply_edits_def saveViewState_def)

lemma currentViewState_restore: "currentViewState (restoreViewState s ed) = s"
  by (simp add: currentViewState_def restoreViewState_def emit_def)

lemma trace_apply_edits:
  "trace (apply_edits h sel v ed) =
     trace ed @
       (if isEmpty sel
        then [SavedViewState (currentViewState ed),
              ExecutedCommand FormatAction_id (EditOperationsCommand v sel),
              RestoredViewState (currentViewState ed)]
        else [ExecutedCommand FormatAction_id (EditOperationsCommand v sel)])"
proof (cases "isEmpty sel")
  case True
  then show ?thesis
    by (simp add: apply_edits_empty restoreViewState_def emit_def executeCommand_def)
next
  case False
  then show ?thesis by (simp add: apply_edits_nonempty trace_executeCommand)
qed

text \<open>
  C8. \<^verbatim>\<open>apply\<close> adds to the trace, for an empty selection, the saving of the view
  state, then the execution of the command, then the restoring of the saved state,
  and the view state afterwards is the one before; for a non-empty selection it
  adds the execution of the command alone, and the editor is as the command left
  it.
\<close>

theorem apply_saves_and_restores:
  "trace (apply_edits h sel v ed) =
     trace ed @
       (if isEmpty sel
        then [SavedViewState (currentViewState ed),
              ExecutedCommand FormatAction_id (EditOperationsCommand v sel),
              RestoredViewState (currentViewState ed)]
        else [ExecutedCommand FormatAction_id (EditOperationsCommand v sel)])
   \<and> (isEmpty sel \<longrightarrow> currentViewState (apply_edits h sel v ed) = currentViewState ed)
   \<and> (\<not> isEmpty sel \<longrightarrow>
        apply_edits h sel v ed =
          executeCommand h FormatAction_id (EditOperationsCommand v sel) ed)"
proof -
  have a: "isEmpty sel \<longrightarrow> currentViewState (apply_edits h sel v ed) = currentViewState ed"
    by (simp add: apply_edits_empty currentViewState_restore)
  have b: "\<not> isEmpty sel \<longrightarrow>
        apply_edits h sel v ed =
          executeCommand h FormatAction_id (EditOperationsCommand v sel) ed"
    by (simp add: apply_edits_nonempty)
  show ?thesis using trace_apply_edits [of h sel v ed] a b by (simp only: simp_thms)
qed

theorem apply_saves_and_restores_witness:
  "scrollTop (apply_edits sampleHost (caretAt 2 7) [sampleEdit] (sampleEditor (caretAt 2 7))) = 120
   \<and> scrollTop (apply_edits sampleHost (rangeSel 1 1 1 5) [sampleEdit]
        (sampleEditor (rangeSel 1 1 1 5))) = 0"
proof -
  have e: "isEmpty (caretAt 2 7)" by (simp add: isEmpty_def caretAt_def)
  have n: "\<not> isEmpty (rangeSel 1 1 1 5)" by (simp add: isEmpty_def rangeSel_def)
  have "isEmpty (caretAt 2 7) \<longrightarrow>
      currentViewState (apply_edits sampleHost (caretAt 2 7) [sampleEdit]
        (sampleEditor (caretAt 2 7))) = currentViewState (sampleEditor (caretAt 2 7))"
    using apply_saves_and_restores
      [of sampleHost "caretAt 2 7" "[sampleEdit]" "sampleEditor (caretAt 2 7)"]
    by blast
  then have "savedScrollTop (currentViewState (apply_edits sampleHost (caretAt 2 7) [sampleEdit]
        (sampleEditor (caretAt 2 7)))) =
      savedScrollTop (currentViewState (sampleEditor (caretAt 2 7)))"
    using e by simp
  then have a: "scrollTop (apply_edits sampleHost (caretAt 2 7) [sampleEdit]
      (sampleEditor (caretAt 2 7))) = 120"
    by (simp add: currentViewState_def sampleEditor_def)
  have "\<not> isEmpty (rangeSel 1 1 1 5) \<longrightarrow>
      apply_edits sampleHost (rangeSel 1 1 1 5) [sampleEdit] (sampleEditor (rangeSel 1 1 1 5)) =
        executeCommand sampleHost FormatAction_id
          (EditOperationsCommand [sampleEdit] (rangeSel 1 1 1 5)) (sampleEditor (rangeSel 1 1 1 5))"
    using apply_saves_and_restores
      [of sampleHost "rangeSel 1 1 1 5" "[sampleEdit]" "sampleEditor (rangeSel 1 1 1 5)"]
    by blast
  then have "apply_edits sampleHost (rangeSel 1 1 1 5) [sampleEdit]
        (sampleEditor (rangeSel 1 1 1 5)) =
        executeCommand sampleHost FormatAction_id
          (EditOperationsCommand [sampleEdit] (rangeSel 1 1 1 5)) (sampleEditor (rangeSel 1 1 1 5))"
    using n by blast
  then have b: "scrollTop (apply_edits sampleHost (rangeSel 1 1 1 5) [sampleEdit]
        (sampleEditor (rangeSel 1 1 1 5))) = 0"
    by (simp add: executeCommand_def sampleHost_def)
  show ?thesis using a b by (rule conjI)
qed

lemma run_with_model:
  "getModel ed = Some m \<Longrightarrow>
   run h ed =
     (if isEmpty (getSelection ed)
      then (if documentFormatting h m (getOptions m)
            then (None,
                  emit (CapturedState (snapshot ed))
                    (emit (Requested (DocumentFormattingEdits m (getOptions m))) ed),
                  Some \<lparr>pendingPromise = DocumentFormattingEdits m (getOptions m),
                        pendingSelection = getSelection ed, pendingState = snapshot ed\<rparr>)
            else (None, ed, None))
      else (if rangeFormatting h m (getSelection ed) (getOptions m)
            then (None,
                  emit (CapturedState (snapshot ed))
                    (emit (Requested
                       (DocumentRangeFormattingEdits m (getSelection ed) (getOptions m))) ed),
                  Some \<lparr>pendingPromise =
                          DocumentRangeFormattingEdits m (getSelection ed) (getOptions m),
                        pendingSelection = getSelection ed, pendingState = snapshot ed\<rparr>)
            else (None, ed, None)))"
  by (simp add: run_def getDocumentFormattingEdits_def getDocumentRangeFormattingEdits_def
        captureState_def Let_def snapshot_def emit_def getModel_def getPosition_def)

lemma run_without_model: "getModel ed = None \<Longrightarrow> run h ed = (Some TypeError, ed, None)"
  by (simp add: run_def)

text \<open>
  C2, as the code has it. \<^verbatim>\<open>run\<close> captures the state token after it has issued the
  formatting request, in the same synchronous call and so before the continuation
  can run: with a promise, the effects of \<^verbatim>\<open>run\<close> are the request followed by the
  capture; without one, \<^verbatim>\<open>run\<close> has no effect and captures nothing.
\<close>

theorem run_captures_after_request:
  "run h ed = (err, ed', pend) \<Longrightarrow>
   (case pend of
      None \<Rightarrow> added ed ed' = []
    | Some p \<Rightarrow>
        added ed ed' = [Requested (pendingPromise p), CapturedState (pendingState p)] \<and>
        comesBefore isRequested isCapturedState (added ed ed') \<and>
        \<not> comesBefore isCapturedState isRequested (added ed ed'))"
proof (cases "getModel ed")
  case None
  assume "run h ed = (err, ed', pend)"
  then show ?thesis using run_without_model [OF None, of h] by (simp add: added_self)
next
  case (Some m)
  assume "run h ed = (err, ed', pend)"
  then show ?thesis using run_with_model [OF Some, of h]
    by (auto simp add: added_self added_emit2 comesBefore_def split: if_splits)
qed

lemma sample_run:
  "run sampleHost (sampleEditor (caretAt 2 7)) =
     (None,
      emit (CapturedState (snapshot (sampleEditor (caretAt 2 7))))
        (emit (Requested (DocumentFormattingEdits sampleModel (getOptions sampleModel)))
           (sampleEditor (caretAt 2 7))),
      Some \<lparr>pendingPromise = DocumentFormattingEdits sampleModel (getOptions sampleModel),
            pendingSelection = caretAt 2 7,
            pendingState = snapshot (sampleEditor (caretAt 2 7))\<rparr>)"
proof -
  have m: "getModel (sampleEditor (caretAt 2 7)) = Some sampleModel"
    by (simp add: sampleEditor_def getModel_def)
  show ?thesis
    unfolding run_with_model [OF m]
    by (simp add: sampleEditor_def sampleHost_def caretAt_def isEmpty_def getSelection_def)
qed

theorem run_captures_after_request_witness:
  "added (sampleEditor (caretAt 2 7))
     (emit (CapturedState (snapshot (sampleEditor (caretAt 2 7))))
        (emit (Requested (DocumentFormattingEdits sampleModel (getOptions sampleModel)))
           (sampleEditor (caretAt 2 7)))) =
     [Requested (DocumentFormattingEdits sampleModel (getOptions sampleModel)),
      CapturedState (snapshot (sampleEditor (caretAt 2 7)))]"
  using run_captures_after_request [OF sample_run] by simp

text \<open>
  C2, as the claim has it, fails: on the sample editor, with a caret and a document
  formatting provider, no capture of the state comes before the request; the
  request comes before the capture.
\<close>

theorem run_capture_before_request_counterexample:
  "\<not> comesBefore isCapturedState isRequested
       (added (sampleEditor (caretAt 2 7))
          (fst (snd (run sampleHost (sampleEditor (caretAt 2 7))))))
   \<and> comesBefore isRequested isCapturedState
       (added (sampleEditor (caretAt 2 7))
          (fst (snd (run sampleHost (sampleEditor (caretAt 2 7))))))"
  by (simp add: sample_run added_emit2 comesBefore_def)

lemma onResult_applies:
  "validate (pendingState p) ed \<Longrightarrow> r \<noteq> [] \<Longrightarrow>
   onResult h p (Some r) ed = focus (apply_edits h (pendingSelection p) r ed)"
  by (simp add: onResult_def)

lemma filter_executed_apply:
  "filter isExecutedCommand (added ed (focus (apply_edits h sel r ed))) =
     [ExecutedCommand FormatAction_id (EditOperationsCommand r sel)]"
proof -
  have "trace (focus (apply_edits h sel r ed)) = trace (apply_edits h sel r ed) @ [Focused]"
    by (simp add: focus_def emit_def)
  then show ?thesis
    using trace_apply_edits [of h sel r ed] by (simp add: added_def)
qed

lemma run_pending:
  "run h ed0 = (err, ed1, Some p) \<Longrightarrow>
   pendingSelection p = getSelection ed0 \<and>
   (\<exists>m. getModel ed0 = Some m \<and>
      pendingPromise p =
        (if isEmpty (getSelection ed0) then DocumentFormattingEdits m (getOptions m)
         else DocumentRangeFormattingEdits m (getSelection ed0) (getOptions m)))"
proof (cases "getModel ed0")
  case None
  assume "run h ed0 = (err, ed1, Some p)"
  then show ?thesis using run_without_model [OF None, of h] by simp
next
  case (Some m)
  assume "run h ed0 = (err, ed1, Some p)"
  then show ?thesis using Some run_with_model [OF Some, of h]
    by (auto split: if_splits)
qed

text \<open>
  C10. Let \<^verbatim>\<open>run\<close> on the editor \<open>ed0\<close> leave a pending request, and let its
  non-empty result \<open>r\<close> arrive on an editor \<open>ed\<close> against which the token validates.
  Then the one command executed is built from \<open>r\<close> and the selection of \<open>ed0\<close>, the
  selection that also chose between the whole-document and the range request,
  whatever the selection of \<open>ed\<close> is.
\<close>

theorem run_command_uses_request_time_selection:
  "run h ed0 = (err, ed1, Some p) \<Longrightarrow> validate (pendingState p) ed \<Longrightarrow> r \<noteq> [] \<Longrightarrow>
   filter isExecutedCommand (added ed (snd (settleRun h p (Fulfilled (Some r)) ed))) =
     [ExecutedCommand FormatAction_id (EditOperationsCommand r (getSelection ed0))]
   \<and> (\<exists>m. getModel ed0 = Some m \<and>
         pendingPromise p =
           (if isEmpty (getSelection ed0) then DocumentFormattingEdits m (getOptions m)
            else DocumentRangeFormattingEdits m (getSelection ed0) (getOptions m)))"
proof -
  assume r: "run h ed0 = (err, ed1, Some p)" and v: "validate (pendingState p) ed"
    and ne: "r \<noteq> []"
  have sel: "pendingSelection p = getSelection ed0" using run_pending [OF r] by simp
  have "snd (settleRun h p (Fulfilled (Some r)) ed) =
          focus (apply_edits h (getSelection ed0) r ed)"
    using onResult_applies [OF v ne, of h] sel by (simp add: settleRun_def)
  then show ?thesis using run_pending [OF r] by (simp add: filter_executed_apply)
qed

text \<open>
  The witness: the request is issued with the selection (1,1)-(1,5); while it is
  pending the anchor of the selection moves to (1,3), the cursor and the content
  version stay, so the token validates; the command still receives (1,1)-(1,5).
\<close>

theorem run_command_uses_request_time_selection_witness:
  "filter isExecutedCommand
     (added (sampleEditor (rangeSel 1 3 1 5))
        (snd (settleRun sampleHost
               \<lparr>pendingPromise = DocumentRangeFormattingEdits sampleModel (rangeSel 1 1 1 5)
                                    (getOptions sampleModel),
                pendingSelection = rangeSel 1 1 1 5,
                pendingState = snapshot (sampleEditor (rangeSel 1 1 1 5))\<rparr>
               (Fulfilled (Some [sampleEdit])) (sampleEditor (rangeSel 1 3 1 5))))) =
     [ExecutedCommand FormatAction_id (EditOperationsCommand [sampleEdit] (rangeSel 1 1 1 5))]
   \<and> getSelection (sampleEditor (rangeSel 1 3 1 5)) \<noteq> rangeSel 1 1 1 5"
proof -
  let ?before = "sampleEditor (rangeSel 1 1 1 5)"
  let ?later = "sampleEditor (rangeSel 1 3 1 5)"
  let ?p = "\<lparr>pendingPromise = DocumentRangeFormattingEdits sampleModel (rangeSel 1 1 1 5)
                                    (getOptions sampleModel),
                pendingSelection = rangeSel 1 1 1 5,
                pendingState = snapshot ?before\<rparr>"
  have m: "getModel ?before = Some sampleModel" by (simp add: sampleEditor_def getModel_def)
  have r: "run sampleHost ?before =
      (None,
       emit (CapturedState (snapshot ?before))
         (emit (Requested (DocumentRangeFormattingEdits sampleModel (rangeSel 1 1 1 5)
                  (getOptions sampleModel))) ?before),
       Some ?p)"
    unfolding run_with_model [OF m]
    by (simp add: sampleEditor_def sampleHost_def rangeSel_def isEmpty_def getSelection_def)
  have v: "validate (pendingState ?p) ?later"
    by (simp add: validate_def snapshot_def sampleEditor_def getModel_def getPosition_def
          getPositionOf_def rangeSel_def)
  have ne: "[sampleEdit] \<noteq> []" by simp
  have d: "getSelection ?later \<noteq> rangeSel 1 1 1 5"
    by (simp add: sampleEditor_def getSelection_def rangeSel_def)
  have s: "getSelection ?before = rangeSel 1 1 1 5"
    by (simp add: sampleEditor_def getSelection_def)
  show ?thesis
    using run_command_uses_request_time_selection [OF r v ne] d s by simp
qed

section \<open>Properties of the re-evaluation\<close>

lemma fold_addTypingListener:
  "fold addTypingListener chs ed = ed\<lparr>callOnModel := callOnModel ed @ chs\<rparr>"
  by (induction chs arbitrary: ed) (simp_all add: addTypingListener_def)

lemma update_first:
  "getModel ed = Some m \<Longrightarrow> ordered h m = p # ps \<Longrightarrow>
   update h ed =
     ed\<lparr>callOnModel :=
          (if formatOnType ed
           then (case autoFormatTriggerCharacters p of None \<Rightarrow> [] | Some chs \<Rightarrow> chs)
           else [])\<rparr>"
  by (simp add: update_def getModel_def fold_addTypingListener Let_def split: option.splits)

text \<open>
  C9. With a model attached and \<open>p\<close> the first of the providers the registry
  orders for it, \<^verbatim>\<open>update\<close> gives the same result as with \<open>p\<close> as the only
  provider; and when \<open>p\<close> declares no trigger characters (none, or an empty array),
  no typing listener is registered, whatever the later providers \<open>ps\<close> declare.
\<close>

theorem update_first_provider_only:
  "getModel ed = Some m \<Longrightarrow> ordered h m = p # ps \<Longrightarrow>
   update h ed = update (h\<lparr>ordered := (\<lambda>x. [p])\<rparr>) ed \<and>
   (autoFormatTriggerCharacters p = None \<or> autoFormatTriggerCharacters p = Some []
      \<longrightarrow> callOnModel (update h ed) = [])"
proof -
  assume m: "getModel ed = Some m" and o: "ordered h m = p # ps"
  have o': "ordered (h\<lparr>ordered := (\<lambda>x. [p])\<rparr>) m = p # []" by simp
  have "update h ed = update (h\<lparr>ordered := (\<lambda>x. [p])\<rparr>) ed"
    by (simp only: update_first [OF m o] update_first [OF m o'])
  moreover have "autoFormatTriggerCharacters p = None \<or> autoFormatTriggerCharacters p = Some []
      \<longrightarrow> callOnModel (update h ed) = []"
    by (auto simp add: update_first [OF m o])
  ultimately show ?thesis by simp
qed

theorem update_first_provider_only_witness:
  "callOnModel (update sampleHost (sampleEditor (caretAt 2 7))) = []"
proof -
  have m: "getModel (sampleEditor (caretAt 2 7)) = Some sampleModel"
    by (simp add: getModel_def sampleEditor_def)
  have o: "ordered sampleHost sampleModel =
      \<lparr>autoFormatTriggerCharacters = None\<rparr> #
        [\<lparr>autoFormatTriggerCharacters = Some ['';'', ''}'']\<rparr>]"
    by (simp add: sampleHost_def)
  have "autoFormatTriggerCharacters \<lparr>autoFormatTriggerCharacters = None\<rparr> = None \<or>
        autoFormatTriggerCharacters \<lparr>autoFormatTriggerCharacters = None\<rparr> = Some []
        \<longrightarrow> callOnModel (update sampleHost (sampleEditor (caretAt 2 7))) = []"
    using update_first_provider_only [OF m o] by (rule conjunct2)
  then show ?thesis by simp
qed


end
